theory Spec2Isabelle
  imports
    Main
    "HOL-Library.Word"
    "HOL-Library.Char_ord"
    "HOL-Library.List_Lexorder"
    "HOL-Library.AList"
    "HOL-Library.Sublist"
begin

section \<open>Reddit feed: credential state, authenticator, fetch-and-normalize pipeline\<close>

text \<open>
  A shallow embedding of \<^verbatim>\<open>internal/feed/reddit.go\<close>. Go strings are byte sequences and
  are modelled as \<open>string\<close> (one \<open>char\<close> per byte); the zero value of a string field is
  the empty string. Go's \<^verbatim>\<open>int\<close> is taken at its width on 64-bit platforms.
\<close>

subsection \<open>Primitive types\<close>

type_synonym go_int = "64 word"

text \<open>A \<^verbatim>\<open>float64\<close> is carried as its 64-bit pattern; no arithmetic is done on it here.\<close>
type_synonym float64 = "64 word"

text \<open>
  \<^verbatim>\<open>time.Duration\<close> is an \<^verbatim>\<open>int64\<close> count of nanoseconds. A \<^verbatim>\<open>time.Time\<close> is modelled
  by the instant it denotes: the number of nanoseconds since the zero instant
  (January 1, year 1, 00:00:00 UTC).
\<close>
type_synonym Duration = "64 word"
type_synonym Time = int

definition time_Second :: Duration where
  "time_Second = 1000000000"

definition time_IsZero :: "Time \<Rightarrow> bool" where
  "time_IsZero t = (t = 0)"

definition time_After :: "Time \<Rightarrow> Time \<Rightarrow> bool" where
  "time_After t u = (u < t)"

definition time_Add :: "Time \<Rightarrow> Duration \<Rightarrow> Time" where
  "time_Add t d = t + sint d"

subsection \<open>Errors\<close>

text \<open>
  \<open>ErrorsNew\<close> is an error made in this file by \<^verbatim>\<open>errors.New\<close> or by \<^verbatim>\<open>fmt.Errorf\<close>
  without a wrapped error; \<open>External\<close> is an error handed back by a collaborator
  (\<^verbatim>\<open>http.NewRequest\<close>, transport, JSON decoding).
\<close>
datatype error = ErrorsNew string | External string

subsection \<open>Data model\<close>

record crosspost_parent =
  parent_Id :: string
  parent_Subreddit :: string
  parent_Permalink :: string

text \<open>One element of \<^verbatim>\<open>Data.Children\<close>, i.e. its inner \<^verbatim>\<open>Data\<close> struct.\<close>
record post_data =
  post_Id :: string
  post_Title :: string
  post_Upvotes :: go_int
  post_Url :: string
  post_Time :: float64
  post_CommentsCount :: go_int
  post_Domain :: string
  post_Permalink :: string
  post_Stickied :: bool
  post_Pinned :: bool
  post_IsSelf :: bool
  post_Thumbnail :: string
  post_Flair :: string
  post_ParentList :: "crosspost_parent list"

record subredditResponseJson =
  Children :: "post_data list"

record redditAccessTokenResponseJson =
  resp_AccessToken :: string
  resp_ExpiresIn :: go_int
  resp_Scope :: string
  resp_TokenType :: string

record RedditOauth =
  ClientId :: string
  ClientSecret :: string
  Username :: string
  Password :: string
  UserAgent :: string
  AccessToken :: string
  ExpiresAt :: Time

text \<open>The fields of \<^verbatim>\<open>ForumPost\<close> that this file assigns; every other field keeps its zero value.\<close>
record ForumPost =
  Title :: string
  DiscussionUrl :: string
  TargetUrl :: string
  TargetUrlDomain :: string
  ThumbnailUrl :: string
  CommentCount :: go_int
  Score :: go_int
  TimePosted :: Time
  Tags :: "string list"
  IsCrosspost :: bool

record http_request =
  req_method :: string
  req_url :: string
  req_body :: string
  req_header :: "(string \<times> string) list"

subsection \<open>Collaborators and effects\<close>

text \<open>
  The collaborators that are not part of this file are parameters:
  the URL check of \<^verbatim>\<open>http.NewRequest\<close>, the header value built by \<^verbatim>\<open>SetBasicAuth\<close>,
  \<^verbatim>\<open>decodeJsonFromRequest\<close> at the two response types, the User-Agent value that
  \<^verbatim>\<open>addBrowserUserAgentHeader\<close> sets, \<^verbatim>\<open>html.UnescapeString\<close>, and
  \<^verbatim>\<open>time.Unix(int64(x), 0)\<close> on a \<^verbatim>\<open>float64\<close>.
\<close>
record env =
  new_request_error :: "string \<Rightarrow> string \<Rightarrow> error option"
  basic_auth_value :: "string \<Rightarrow> string \<Rightarrow> string"
  decode_token :: "http_request \<Rightarrow> error + redditAccessTokenResponseJson"
  decode_listing :: "http_request \<Rightarrow> error + subredditResponseJson"
  browser_user_agent :: string
  html_UnescapeString :: "string \<Rightarrow> string"
  time_Unix_of_float :: "float64 \<Rightarrow> Time"

text \<open>
  The world: \<open>clock n\<close> is what the \<open>n\<close>-th call of \<^verbatim>\<open>time.Now()\<close> returns, \<open>reads\<close>
  counts the calls made so far, \<open>sent\<close> lists the requests handed to the HTTP client,
  oldest first.
\<close>
record world =
  clock :: "nat \<Rightarrow> Time"
  reads :: nat
  sent :: "http_request list"

definition time_Now :: "world \<Rightarrow> Time \<times> world" where
  "time_Now w = (clock w (reads w), w\<lparr>reads := Suc (reads w)\<rparr>)"

definition http_NewRequest :: "env \<Rightarrow> string \<Rightarrow> string \<Rightarrow> string \<Rightarrow> error + http_request" where
  "http_NewRequest e method url body =
     (case new_request_error e method url of
        Some err \<Rightarrow> Inl err
      | None \<Rightarrow> Inr \<lparr>req_method = method, req_url = url, req_body = body, req_header = []\<rparr>)"

definition Header_Set :: "string \<Rightarrow> string \<Rightarrow> http_request \<Rightarrow> http_request" where
  "Header_Set k v r = r\<lparr>req_header := AList.update k v (req_header r)\<rparr>"

definition SetBasicAuth :: "env \<Rightarrow> string \<Rightarrow> string \<Rightarrow> http_request \<Rightarrow> http_request" where
  "SetBasicAuth e username password r =
     Header_Set ''Authorization'' (basic_auth_value e username password) r"

text \<open>
  Modelled from the spec: \<^verbatim>\<open>addBrowserUserAgentHeader\<close> is defined elsewhere in the
  package; it sets a generic browser-like User-Agent header on the request.
\<close>
definition addBrowserUserAgentHeader :: "env \<Rightarrow> http_request \<Rightarrow> http_request" where
  "addBrowserUserAgentHeader e r = Header_Set ''User-Agent'' (browser_user_agent e) r"

text \<open>
  Modelled from the spec: \<^verbatim>\<open>decodeJsonFromRequest\<close> is defined elsewhere in the package;
  it issues the request and hands back the typed JSON body or a transport or decoding
  error. The reply to a request is a parameter; the request is recorded as sent.
\<close>
definition decodeJsonFromRequest ::
  "(http_request \<Rightarrow> error + 'a) \<Rightarrow> http_request \<Rightarrow> world \<Rightarrow> (error + 'a) \<times> world" where
  "decodeJsonFromRequest decode request w = (decode request, w\<lparr>sent := sent w @ [request]\<rparr>)"

subsection \<open>Credential state\<close>

definition ShouldAuthenticate :: "RedditOauth \<Rightarrow> bool" where
  "ShouldAuthenticate r =
     (ClientId r \<noteq> [] \<and> ClientSecret r \<noteq> [] \<and> Username r \<noteq> [] \<and> Password r \<noteq> [])"

definition ShouldReauthenticate :: "RedditOauth \<Rightarrow> world \<Rightarrow> bool \<times> world" where
  "ShouldReauthenticate r w =
     (if time_IsZero (ExpiresAt r) then (False, w)
      else (let (now, w') = time_Now w in (\<not> time_After (ExpiresAt r) now, w')))"

subsection \<open>Authenticator\<close>

definition TryAuthenticate ::
  "env \<Rightarrow> RedditOauth \<Rightarrow> world \<Rightarrow> (error option \<times> RedditOauth) \<times> world" where
  "TryAuthenticate e oauth w =
     (if ClientId oauth \<noteq> [] \<and> ClientSecret oauth \<noteq> [] \<and> Username oauth \<noteq> []
         \<and> Password oauth \<noteq> [] then
        (let body = ''grant_type=password&username='' @ Username oauth
                      @ ''&password='' @ Password oauth
         in case http_NewRequest e ''POST'' ''https://www.reddit.com/api/v1/access_token'' body of
              Inl err \<Rightarrow> ((Some err, oauth), w)
            | Inr request0 \<Rightarrow>
                (let request = SetBasicAuth e (ClientId oauth) (ClientSecret oauth) request0;
                     (res, w1) = decodeJsonFromRequest (decode_token e) request w
                 in case res of
                      Inl err \<Rightarrow> ((Some err, oauth), w1)
                    | Inr response \<Rightarrow>
                        if resp_AccessToken response = [] then
                          ((Some (ErrorsNew ''reddit access token undefined''), oauth), w1)
                        else if resp_ExpiresIn response = 0 then
                          ((Some (ErrorsNew ''reddit expires in undefined''), oauth), w1)
                        else
                          (let (now, w2) = time_Now w1
                           in ((None, oauth\<lparr>AccessToken := resp_AccessToken response,
                                             ExpiresAt := time_Add now
                                               (resp_ExpiresIn response * time_Second)\<rparr>), w2))))
      else ((None, oauth), w))"

subsection \<open>String helpers of the Go library\<close>

text \<open>
  \<^verbatim>\<open>strings.ReplaceAll(s, old, new)\<close>: the non-overlapping instances of \<open>old\<close> in \<open>s\<close>,
  found from the left, are replaced by \<open>new\<close>. Every call in this file passes a non-empty
  literal for \<open>old\<close>; Go's rule for an empty \<open>old\<close> is not modelled, and the function is
  left unspecified there.
\<close>
fun strings_ReplaceAll :: "string \<Rightarrow> string \<Rightarrow> string \<Rightarrow> string" where
  "strings_ReplaceAll [] (a # old) new = []"
| "strings_ReplaceAll (c # cs) (a # old) new =
     (if prefix (a # old) (c # cs)
      then new @ strings_ReplaceAll (drop (length (a # old)) (c # cs)) (a # old) new
      else c # strings_ReplaceAll cs (a # old) new)"

text \<open>
  \<^verbatim>\<open>strings.TrimLeft(s, cutset)\<close> for a cutset of ASCII bytes: the leading bytes of \<open>s\<close>
  that occur in the cutset are removed.
\<close>
definition strings_TrimLeft :: "string \<Rightarrow> string \<Rightarrow> string" where
  "strings_TrimLeft s cutset = dropWhile (\<lambda>c. c \<in> set cutset) s"

definition templateRedditCommentsURL :: "string \<Rightarrow> string \<Rightarrow> string \<Rightarrow> string \<Rightarrow> string" where
  "templateRedditCommentsURL template subreddit postId postPath =
     (let template = strings_ReplaceAll template ''{SUBREDDIT}'' subreddit;
          template = strings_ReplaceAll template ''{POST-ID}'' postId;
          template = strings_ReplaceAll template ''{POST-PATH}'' (strings_TrimLeft postPath ''/'')
      in template)"

subsection \<open>Query strings (\<^verbatim>\<open>net/url\<close>)\<close>

text \<open>
  \<^verbatim>\<open>url.Values\<close> maps a key to its list of values; it is kept as an association list
  with distinct keys. \<^verbatim>\<open>Encode\<close> walks the keys in sorted order and writes
  \<^verbatim>\<open>key=value\<close> pairs joined by \<^verbatim>\<open>&\<close>, both sides passed through \<^verbatim>\<open>QueryEscape\<close>.
\<close>
type_synonym Values = "(string \<times> string list) list"

definition Values_Set :: "string \<Rightarrow> string \<Rightarrow> Values \<Rightarrow> Values" where
  "Values_Set key val v = AList.update key [val] v"

definition Values_Get :: "Values \<Rightarrow> string \<Rightarrow> string list" where
  "Values_Get v key = (case map_of v key of None \<Rightarrow> [] | Some vs \<Rightarrow> vs)"

definition upperhex :: "nat \<Rightarrow> char" where
  "upperhex n = ''0123456789ABCDEF'' ! n"

definition shouldEscape :: "char \<Rightarrow> bool" where
  "shouldEscape c =
     (let n = (of_char c :: nat)
      in if (97 \<le> n \<and> n \<le> 122) \<or> (65 \<le> n \<and> n \<le> 90) \<or> (48 \<le> n \<and> n \<le> 57) then False
         else if c = CHR ''-'' \<or> c = CHR ''_'' \<or> c = CHR ''.'' \<or> c = CHR ''~'' then False
         else True)"

definition escape_byte :: "char \<Rightarrow> string" where
  "escape_byte c =
     (if c = CHR '' '' then ''+''
      else if shouldEscape c
      then [CHR ''%'', upperhex ((of_char c :: nat) div 16), upperhex ((of_char c :: nat) mod 16)]
      else [c])"

definition QueryEscape :: "string \<Rightarrow> string" where
  "QueryEscape s = concat (map escape_byte s)"

fun encode_values :: "string \<Rightarrow> string list \<Rightarrow> string \<Rightarrow> string" where
  "encode_values keyEscaped [] buf = buf"
| "encode_values keyEscaped (x # xs) buf =
     encode_values keyEscaped xs
       ((if buf \<noteq> [] then buf @ ''&'' else buf) @ keyEscaped @ ''='' @ QueryEscape x)"

fun encode_keys :: "Values \<Rightarrow> string list \<Rightarrow> string \<Rightarrow> string" where
  "encode_keys v [] buf = buf"
| "encode_keys v (k # ks) buf =
     encode_keys v ks (encode_values (QueryEscape k) (Values_Get v k) buf)"

definition Values_Encode :: "Values \<Rightarrow> string" where
  "Values_Encode v = (if v = [] then [] else encode_keys v (sort (map fst v)) [])"

subsection \<open>Fetch-and-normalize pipeline\<close>

text \<open>Line 110: whether the authenticated host is used.\<close>
definition useOauth :: "RedditOauth option \<Rightarrow> bool" where
  "useOauth oauth = (case oauth of None \<Rightarrow> False | Some cred \<Rightarrow> AccessToken cred \<noteq> [])"

text \<open>Lines 111--121: the host, and the reauthentication when one is due.\<close>
definition selectHost ::
  "env \<Rightarrow> RedditOauth option \<Rightarrow> world \<Rightarrow> (error + string) \<times> RedditOauth option \<times> world" where
  "selectHost e oauth w =
     (case oauth of
        None \<Rightarrow> (Inr ''https://reddit.com'', None, w)
      | Some cred \<Rightarrow>
          if useOauth oauth then
            (let (reauth, w1) = ShouldReauthenticate cred w
             in if reauth then
                  (let ((err, cred'), w2) = TryAuthenticate e cred w1
                   in case err of
                        Some er \<Rightarrow> (Inl er, Some cred', w2)
                      | None \<Rightarrow> (Inr ''https://oauth.reddit.com'', Some cred', w2))
                else (Inr ''https://oauth.reddit.com'', Some cred, w1))
          else (Inr ''https://reddit.com'', Some cred, w))"

text \<open>Lines 123--130: the query parameters.\<close>
definition buildQuery :: "string \<Rightarrow> string \<Rightarrow> string \<Rightarrow> string \<Rightarrow> Values" where
  "buildQuery subreddit sort' topPeriod search =
     (let query = [];
          query = (if search \<noteq> []
                   then Values_Set ''sort'' sort'
                          (Values_Set ''q'' (search @ '' subreddit:'' @ subreddit) query)
                   else query);
          query = (if sort' = ''top'' then Values_Set ''t'' topPeriod query else query)
      in query)"

text \<open>Lines 132--140: the request URL, then the request-URL template.\<close>
definition buildRequestUrl ::
  "string \<Rightarrow> string \<Rightarrow> string \<Rightarrow> string \<Rightarrow> string \<Rightarrow> string" where
  "buildRequestUrl baseRequestUrl subreddit sort' search encoded =
     (if search \<noteq> [] then baseRequestUrl @ ''/search.json?'' @ encoded
      else baseRequestUrl @ ''/r/'' @ subreddit @ ''/'' @ sort' @ ''.json?'' @ encoded)"

definition applyRequestUrlTemplate :: "string \<Rightarrow> string \<Rightarrow> string" where
  "applyRequestUrlTemplate requestUrlTemplate requestUrl =
     (if requestUrlTemplate \<noteq> []
      then strings_ReplaceAll requestUrlTemplate ''{REQUEST-URL}'' requestUrl
      else requestUrl)"

definition finalRequestUrl ::
  "string \<Rightarrow> string \<Rightarrow> string \<Rightarrow> string \<Rightarrow> string \<Rightarrow> string \<Rightarrow> string" where
  "finalRequestUrl baseRequestUrl subreddit sort' topPeriod search requestUrlTemplate =
     applyRequestUrlTemplate requestUrlTemplate
       (buildRequestUrl baseRequestUrl subreddit sort' search
          (Values_Encode (buildQuery subreddit sort' topPeriod search)))"

text \<open>
  Lines 148--160: the headers of the listing request. The flag is the one computed at
  line 110, before any reauthentication; the credential is read as it is now.
\<close>
definition setHeaders :: "env \<Rightarrow> bool \<Rightarrow> RedditOauth option \<Rightarrow> http_request \<Rightarrow> http_request" where
  "setHeaders e use oauth request =
     (case oauth of
        None \<Rightarrow> addBrowserUserAgentHeader e request
      | Some cred \<Rightarrow>
          if use then
            (let userAgent = (if UserAgent cred \<noteq> [] then UserAgent cred
                              else ''glance/0.1 by '' @ Username cred)
             in Header_Set ''User-Agent'' userAgent
                  (Header_Set ''Authorization'' (''bearer '' @ AccessToken cred) request))
          else addBrowserUserAgentHeader e request)"

text \<open>Lines 181--224: the body of the loop, for an entry that is not skipped.\<close>
definition normalizePost :: "env \<Rightarrow> string \<Rightarrow> string \<Rightarrow> bool \<Rightarrow> post_data \<Rightarrow> ForumPost" where
  "normalizePost e subreddit commentsUrlTemplate showFlairs post =
     (let commentsUrl =
            (if commentsUrlTemplate = [] then ''https://www.reddit.com'' @ post_Permalink post
             else templateRedditCommentsURL commentsUrlTemplate subreddit
                    (post_Id post) (post_Permalink post));
          forumPost = \<lparr>Title = html_UnescapeString e (post_Title post),
                       DiscussionUrl = commentsUrl,
                       TargetUrl = [],
                       TargetUrlDomain = post_Domain post,
                       ThumbnailUrl = [],
                       CommentCount = post_CommentsCount post,
                       Score = post_Upvotes post,
                       TimePosted = time_Unix_of_float e (post_Time post),
                       Tags = [],
                       IsCrosspost = False\<rparr>;
          forumPost =
            (if post_Thumbnail post \<noteq> [] \<and> post_Thumbnail post \<noteq> ''self''
                \<and> post_Thumbnail post \<noteq> ''default'' \<and> post_Thumbnail post \<noteq> ''nsfw''
             then forumPost\<lparr>ThumbnailUrl := html_UnescapeString e (post_Thumbnail post)\<rparr>
             else forumPost);
          forumPost =
            (if \<not> post_IsSelf post then forumPost\<lparr>TargetUrl := post_Url post\<rparr>
             else forumPost);
          forumPost =
            (if showFlairs \<and> post_Flair post \<noteq> []
             then forumPost\<lparr>Tags := Tags forumPost @ [post_Flair post]\<rparr>
             else forumPost)
      in case post_ParentList post of
           [] \<Rightarrow> forumPost
         | parent # _ \<Rightarrow>
             forumPost\<lparr>IsCrosspost := True,
                       TargetUrlDomain := ''r/'' @ parent_Subreddit parent,
                       TargetUrl :=
                         (if commentsUrlTemplate = []
                          then ''https://www.reddit.com'' @ parent_Permalink parent
                          else templateRedditCommentsURL commentsUrlTemplate
                                 (parent_Subreddit parent) (parent_Id parent)
                                 (parent_Permalink parent))\<rparr>)"

text \<open>Lines 174--227: the loop over the listing, appending to \<open>posts\<close>.\<close>
fun normalizeLoop ::
  "env \<Rightarrow> string \<Rightarrow> string \<Rightarrow> bool \<Rightarrow> post_data list \<Rightarrow> ForumPost list \<Rightarrow> ForumPost list" where
  "normalizeLoop e subreddit commentsUrlTemplate showFlairs [] posts = posts"
| "normalizeLoop e subreddit commentsUrlTemplate showFlairs (post # rest) posts =
     (if post_Stickied post \<or> post_Pinned post
      then normalizeLoop e subreddit commentsUrlTemplate showFlairs rest posts
      else normalizeLoop e subreddit commentsUrlTemplate showFlairs rest
             (posts @ [normalizePost e subreddit commentsUrlTemplate showFlairs post]))"

text \<open>Lines 106--160: everything up to the listing request that is about to be sent.\<close>
definition prepareRequest ::
  "env \<Rightarrow> string \<Rightarrow> string \<Rightarrow> string \<Rightarrow> string \<Rightarrow> string \<Rightarrow> RedditOauth option \<Rightarrow> world
     \<Rightarrow> (error + http_request) \<times> RedditOauth option \<times> world" where
  "prepareRequest e subreddit sort' topPeriod search requestUrlTemplate oauth w =
     (case selectHost e oauth w of
        (Inl err, oauth1, w1) \<Rightarrow> (Inl err, oauth1, w1)
      | (Inr baseRequestUrl, oauth1, w1) \<Rightarrow>
          (let requestUrl = finalRequestUrl baseRequestUrl subreddit sort' topPeriod search
                              requestUrlTemplate
           in case http_NewRequest e ''GET'' requestUrl [] of
                Inl err \<Rightarrow> (Inl err, oauth1, w1)
              | Inr request \<Rightarrow> (Inr (setHeaders e (useOauth oauth) oauth1 request), oauth1, w1)))"

definition FetchSubredditPosts ::
  "env \<Rightarrow> string \<Rightarrow> string \<Rightarrow> string \<Rightarrow> string \<Rightarrow> string \<Rightarrow> string \<Rightarrow> bool
     \<Rightarrow> RedditOauth option \<Rightarrow> world
     \<Rightarrow> (error + ForumPost list) \<times> RedditOauth option \<times> world" where
  "FetchSubredditPosts e subreddit sort' topPeriod search commentsUrlTemplate requestUrlTemplate
       showFlairs oauth w =
     (case prepareRequest e subreddit sort' topPeriod search requestUrlTemplate oauth w of
        (Inl err, oauth1, w1) \<Rightarrow> (Inl err, oauth1, w1)
      | (Inr request, oauth1, w1) \<Rightarrow>
          (let (res, w2) = decodeJsonFromRequest (decode_listing e) request w1
           in case res of
                Inl err \<Rightarrow> (Inl err, oauth1, w2)
              | Inr responseJson \<Rightarrow>
                  if length (Children responseJson) = 0
                  then (Inl (ErrorsNew ''no posts found''), oauth1, w2)
                  else (Inr (normalizeLoop e subreddit commentsUrlTemplate showFlairs
                               (Children responseJson) []), oauth1, w2)))"

subsection \<open>Notions used to state the properties\<close>

text \<open>The token request that lines 78--83 build, when \<^verbatim>\<open>http.NewRequest\<close> accepts it.\<close>
definition tokenRequest :: "env \<Rightarrow> RedditOauth \<Rightarrow> http_request" where
  "tokenRequest e oauth =
     SetBasicAuth e (ClientId oauth) (ClientSecret oauth)
       \<lparr>req_method = ''POST'',
        req_url = ''https://www.reddit.com/api/v1/access_token'',
        req_body = ''grant_type=password&username='' @ Username oauth
                     @ ''&password='' @ Password oauth,
        req_header = []\<rparr>"

text \<open>A number of seconds whose count of nanoseconds fits an \<^verbatim>\<open>int64\<close> duration.\<close>
definition seconds_fit :: "go_int \<Rightarrow> bool" where
  "seconds_fit n = (- 9223372036 \<le> sint n \<and> sint n \<le> 9223372036)"

text \<open>The credential invariant: a non-empty access token comes with a non-zero expiry.\<close>
definition credential_ok :: "RedditOauth \<Rightarrow> bool" where
  "credential_ok r = (AccessToken r = [] \<or> ExpiresAt r \<noteq> 0)"

text \<open>A clock that always reads more than \<open>2^63\<close> nanoseconds after the zero instant.\<close>
definition clock_sane :: "world \<Rightarrow> bool" where
  "clock_sane w = (\<forall>n. 2 ^ 63 < clock w n)"

text \<open>An entry that the loop does not skip.\<close>
definition kept :: "post_data \<Rightarrow> bool" where
  "kept post = (\<not> post_Stickied post \<and> \<not> post_Pinned post)"

text \<open>The URL of a crosspost's parent: the comments-URL template when one is configured.\<close>
definition parentUrl :: "string \<Rightarrow> crosspost_parent \<Rightarrow> string" where
  "parentUrl commentsUrlTemplate parent =
     (if commentsUrlTemplate = [] then ''https://www.reddit.com'' @ parent_Permalink parent
      else templateRedditCommentsURL commentsUrlTemplate (parent_Subreddit parent)
             (parent_Id parent) (parent_Permalink parent))"

text \<open>The pieces of a text written one after the other with a separator between them.\<close>
fun join :: "string \<Rightarrow> string list \<Rightarrow> string" where
  "join sep [] = []"
| "join sep [x] = x"
| "join sep (x # y # ys) = x @ sep @ join sep (y # ys)"

subsection \<open>Sample inputs\<close>

definition sample_env ::
  "(error + redditAccessTokenResponseJson) \<Rightarrow> (error + subredditResponseJson) \<Rightarrow> env" where
  "sample_env token_reply listing_reply =
     \<lparr>new_request_error = (\<lambda>method url. None),
      basic_auth_value = (\<lambda>username password. ''Basic '' @ username @ '':'' @ password),
      decode_token = (\<lambda>request. token_reply),
      decode_listing = (\<lambda>request. listing_reply),
      browser_user_agent = ''Mozilla/5.0'',
      html_UnescapeString = (\<lambda>s. s),
      time_Unix_of_float = (\<lambda>x. 0)\<rparr>"

definition sample_token :: "string \<Rightarrow> go_int \<Rightarrow> error + redditAccessTokenResponseJson" where
  "sample_token tok expires =
     Inr \<lparr>resp_AccessToken = tok, resp_ExpiresIn = expires,
          resp_Scope = ''*'', resp_TokenType = ''bearer''\<rparr>"

definition sample_cred :: "string \<Rightarrow> Time \<Rightarrow> RedditOauth" where
  "sample_cred tok expiry =
     \<lparr>ClientId = ''id'', ClientSecret = ''secret'', Username = ''user'', Password = ''pw'',
      UserAgent = [], AccessToken = tok, ExpiresAt = expiry\<rparr>"

text \<open>A clock in the year 2025, ticking one nanosecond per reading.\<close>
definition sample_now :: Time where
  "sample_now = 63900000000000000000"

definition sample_world :: world where
  "sample_world = \<lparr>clock = (\<lambda>n. sample_now + int n), reads = 0, sent = []\<rparr>"

definition sample_post :: post_data where
  "sample_post =
     \<lparr>post_Id = ''abc'', post_Title = ''A title'', post_Upvotes = 10, post_Url = ''http://x'',
      post_Time = 0, post_CommentsCount = 2, post_Domain = ''x'',
      post_Permalink = ''/r/golang/comments/abc/a_title/'', post_Stickied = False,
      post_Pinned = False, post_IsSelf = False, post_Thumbnail = ''default'', post_Flair = [],
      post_ParentList = []\<rparr>"

definition sample_parent :: crosspost_parent where
  "sample_parent =
     \<lparr>parent_Id = ''xyz'', parent_Subreddit = ''rust'',
      parent_Permalink = ''/r/rust/comments/xyz/original/''\<rparr>"

definition sample_listing :: subredditResponseJson where
  "sample_listing =
     \<lparr>Children = [sample_post\<lparr>post_Stickied := True\<rparr>, sample_post,
                  sample_post\<lparr>post_Pinned := True\<rparr>, sample_post\<lparr>post_Id := ''def''\<rparr>]\<rparr>"

text \<open>The listing request of an anonymous fetch of \<^verbatim>\<open>r/golang\<close>, sorted by \<^verbatim>\<open>hot\<close>.\<close>
definition sample_request :: http_request where
  "sample_request =
     \<lparr>req_method = ''GET'', req_url = ''https://reddit.com/r/golang/hot.json?'',
      req_body = [], req_header = [(''User-Agent'', ''Mozilla/5.0'')]\<rparr>"

section \<open>Properties\<close>

subsection \<open>Credential state\<close>

text \<open>
  C8. \<^verbatim>\<open>ShouldReauthenticate()\<close> is false when the expiry is the zero value; otherwise it is
  true when the expiry is at or before the current time and false when the expiry is
  strictly after it. The three cases are read in this order, as the source tests them.
  No margin is applied: the answer is exactly ``expiry set and not after now''.
\<close>
theorem ShouldReauthenticate_cases:
  "(ExpiresAt r = 0 \<longrightarrow> \<not> fst (ShouldReauthenticate r w)) \<and>
   (ExpiresAt r \<noteq> 0 \<and> ExpiresAt r \<le> clock w (reads w) \<longrightarrow> fst (ShouldReauthenticate r w)) \<and>
   (clock w (reads w) < ExpiresAt r \<longrightarrow> \<not> fst (ShouldReauthenticate r w)) \<and>
   (fst (ShouldReauthenticate r w) \<longleftrightarrow> ExpiresAt r \<noteq> 0 \<and> ExpiresAt r \<le> clock w (reads w))"
  by (auto simp: ShouldReauthenticate_def time_IsZero_def time_After_def time_Now_def)

theorem ShouldReauthenticate_cases_witness:
  "\<not> fst (ShouldReauthenticate (sample_cred ''tok'' 0) sample_world) \<and>
   fst (ShouldReauthenticate (sample_cred ''tok'' sample_now) sample_world) \<and>
   fst (ShouldReauthenticate (sample_cred ''tok'' (sample_now - 1)) sample_world) \<and>
   \<not> fst (ShouldReauthenticate (sample_cred ''tok'' (sample_now + 1)) sample_world)"
  using ShouldReauthenticate_cases [of "sample_cred ''tok'' 0" sample_world]
    ShouldReauthenticate_cases [of "sample_cred ''tok'' sample_now" sample_world]
    ShouldReauthenticate_cases [of "sample_cred ''tok'' (sample_now - 1)" sample_world]
    ShouldReauthenticate_cases [of "sample_cred ''tok'' (sample_now + 1)" sample_world]
  by (simp add: sample_cred_def sample_world_def sample_now_def)

subsection \<open>Authenticator\<close>

lemma sint_seconds:
  assumes "seconds_fit n"
  shows "sint (n * time_Second) = sint n * 1000000000"
proof -
  have s: "sint (1000000000 :: 64 word) = 1000000000" by simp
  have lo: "- (2 ^ 63) \<le> sint n * (1000000000::int)"
    using assms by (simp add: seconds_fit_def)
  have hi: "sint n * (1000000000::int) < 2 ^ 63"
    using assms by (simp add: seconds_fit_def)
  have "sint (n * 1000000000) = signed_take_bit 63 (sint n * sint (1000000000 :: 64 word))"
    by (simp add: sint_word_ariths)
  also have "\<dots> = sint n * 1000000000"
    using lo hi by (simp only: s signed_take_bit_int_eq_self)
  finally show ?thesis by (simp add: time_Second_def)
qed

text \<open>The run of the authenticator on a fully configured credential, branch by branch.\<close>
lemma TryAuthenticate_run:
  assumes cfg: "ShouldAuthenticate oauth"
  shows "TryAuthenticate e oauth w =
     (case new_request_error e ''POST'' ''https://www.reddit.com/api/v1/access_token'' of
        Some er \<Rightarrow> ((Some er, oauth), w)
      | None \<Rightarrow>
         (case decode_token e (tokenRequest e oauth) of
            Inl er \<Rightarrow> ((Some er, oauth), w\<lparr>sent := sent w @ [tokenRequest e oauth]\<rparr>)
          | Inr resp \<Rightarrow>
             if resp_AccessToken resp = [] then
               ((Some (ErrorsNew ''reddit access token undefined''), oauth),
                w\<lparr>sent := sent w @ [tokenRequest e oauth]\<rparr>)
             else if resp_ExpiresIn resp = 0 then
               ((Some (ErrorsNew ''reddit expires in undefined''), oauth),
                w\<lparr>sent := sent w @ [tokenRequest e oauth]\<rparr>)
             else ((None, oauth\<lparr>AccessToken := resp_AccessToken resp,
                               ExpiresAt := time_Add (clock w (reads w))
                                              (resp_ExpiresIn resp * time_Second)\<rparr>),
                   w\<lparr>sent := sent w @ [tokenRequest e oauth], reads := Suc (reads w)\<rparr>)))"
  using cfg
  by (auto simp: TryAuthenticate_def ShouldAuthenticate_def http_NewRequest_def tokenRequest_def
        decodeJsonFromRequest_def time_Now_def Let_def
        split: option.splits sum.splits)

lemma TryAuthenticate_skip:
  "\<not> ShouldAuthenticate oauth \<Longrightarrow> TryAuthenticate e oauth w = ((None, oauth), w)"
  by (auto simp: TryAuthenticate_def ShouldAuthenticate_def)

lemma TryAuthenticate_credential:
  assumes run: "TryAuthenticate e oauth w = ((err, oauth'), w')"
  shows "oauth' = oauth \<or>
         (\<exists>resp. decode_token e (tokenRequest e oauth) = Inr resp \<and> resp_ExpiresIn resp \<noteq> 0 \<and>
            resp_AccessToken resp \<noteq> [] \<and> err = None \<and>
            oauth' = oauth\<lparr>AccessToken := resp_AccessToken resp,
                           ExpiresAt := time_Add (clock w (reads w))
                                          (resp_ExpiresIn resp * time_Second)\<rparr>)"
proof (cases "ShouldAuthenticate oauth")
  case True
  show ?thesis
    using run unfolding TryAuthenticate_run [OF True]
    by (auto split: option.splits sum.splits if_splits)
next
  case False
  then show ?thesis
    using run by (simp add: TryAuthenticate_skip)
qed

lemma time_Add_nonzero:
  assumes "2 ^ 63 < t"
  shows "time_Add t d \<noteq> 0"
proof -
  have "- (2 ^ 63) \<le> sint d"
    using sint_ge [of d] by simp
  then show ?thesis
    using assms by (simp add: time_Add_def)
qed

lemma run_eq: "f = ((fst (fst f), snd (fst f)), snd f)"
  by simp

text \<open>
  C5, as amended. On a fully configured credential the authenticator returns an error and
  leaves the credential as it was when the request cannot be built, when the exchange
  fails in transport or decoding, when the response has an empty access token (error
  ``reddit access token undefined'') and when it has a token but \<open>expires_in = 0\<close> (error
  ``reddit expires in undefined'', a different error). The credential changes only on
  full success: the access token becomes the response token, no other field but the
  expiry changes, and the expiry becomes the current time plus \<open>expires_in\<close> seconds
  whenever that number of seconds, counted in nanoseconds, fits an \<^verbatim>\<open>int64\<close> duration.
\<close>
theorem TryAuthenticate_configured:
  assumes cfg: "ShouldAuthenticate oauth"
    and run: "TryAuthenticate e oauth w = ((err, oauth'), w')"
  shows
   "(\<forall>er. new_request_error e ''POST'' ''https://www.reddit.com/api/v1/access_token'' = Some er
        \<longrightarrow> err = Some er \<and> oauth' = oauth) \<and>
    (new_request_error e ''POST'' ''https://www.reddit.com/api/v1/access_token'' = None \<longrightarrow>
      (\<forall>er. decode_token e (tokenRequest e oauth) = Inl er \<longrightarrow> err = Some er \<and> oauth' = oauth) \<and>
      (\<forall>resp. decode_token e (tokenRequest e oauth) = Inr resp \<longrightarrow>
         (resp_AccessToken resp = [] \<longrightarrow>
            err = Some (ErrorsNew ''reddit access token undefined'') \<and> oauth' = oauth) \<and>
         (resp_AccessToken resp \<noteq> [] \<and> resp_ExpiresIn resp = 0 \<longrightarrow>
            err = Some (ErrorsNew ''reddit expires in undefined'') \<and> oauth' = oauth) \<and>
         (resp_AccessToken resp \<noteq> [] \<and> resp_ExpiresIn resp \<noteq> 0 \<longrightarrow>
            err = None \<and>
            AccessToken oauth' = resp_AccessToken resp \<and>
            oauth'\<lparr>AccessToken := AccessToken oauth, ExpiresAt := ExpiresAt oauth\<rparr> = oauth \<and>
            (seconds_fit (resp_ExpiresIn resp) \<longrightarrow>
               ExpiresAt oauth' = clock w (reads w) + sint (resp_ExpiresIn resp) * 1000000000)))) \<and>
    (oauth' \<noteq> oauth \<longrightarrow>
       err = None \<and>
       (\<exists>resp. decode_token e (tokenRequest e oauth) = Inr resp \<and> resp_AccessToken resp \<noteq> []
          \<and> resp_ExpiresIn resp \<noteq> 0)) \<and>
    ErrorsNew ''reddit access token undefined'' \<noteq> ErrorsNew ''reddit expires in undefined''"
  using run unfolding TryAuthenticate_run [OF cfg]
  by (auto simp: sint_seconds time_Add_def split: option.splits sum.splits if_splits)

theorem TryAuthenticate_configured_witness:
  "ShouldAuthenticate (sample_cred [] 0) \<and>
   fst (TryAuthenticate (sample_env (sample_token ''tok'' 3600) (Inl (External ''unused'')))
          (sample_cred [] 0) sample_world)
     = (None, sample_cred ''tok'' (sample_now + 3600000000000)) \<and>
   fst (TryAuthenticate (sample_env (Inl (External ''timeout'')) (Inl (External ''unused'')))
          (sample_cred [] 0) sample_world)
     = (Some (External ''timeout''), sample_cred [] 0) \<and>
   fst (TryAuthenticate (sample_env (sample_token [] 3600) (Inl (External ''unused'')))
          (sample_cred [] 0) sample_world)
     = (Some (ErrorsNew ''reddit access token undefined''), sample_cred [] 0) \<and>
   fst (TryAuthenticate (sample_env (sample_token ''tok'' 0) (Inl (External ''unused'')))
          (sample_cred [] 0) sample_world)
     = (Some (ErrorsNew ''reddit expires in undefined''), sample_cred [] 0)"
proof -
  have cfg: "ShouldAuthenticate (sample_cred [] 0)"
    by (simp add: ShouldAuthenticate_def sample_cred_def)
  note T = TryAuthenticate_configured [OF cfg run_eq]
  obtain err c w' where run:
    "TryAuthenticate (sample_env (sample_token ''tok'' 3600) (Inl (External ''unused'')))
       (sample_cred [] 0) sample_world = ((err, c), w')"
    by (metis surj_pair)
  have "err = None \<and> AccessToken c = ''tok'' \<and>
      c\<lparr>AccessToken := AccessToken (sample_cred [] 0), ExpiresAt := ExpiresAt (sample_cred [] 0)\<rparr>
        = sample_cred [] 0 \<and>
      ExpiresAt c = sample_now + 3600000000000"
    using TryAuthenticate_configured [OF cfg run]
    by (simp add: sample_env_def sample_token_def sample_world_def seconds_fit_def)
  then have "err = None \<and> c = sample_cred ''tok'' (sample_now + 3600000000000)"
    by (cases c) (simp add: sample_cred_def)
  with run have success:
    "fst (TryAuthenticate (sample_env (sample_token ''tok'' 3600) (Inl (External ''unused'')))
          (sample_cred [] 0) sample_world)
       = (None, sample_cred ''tok'' (sample_now + 3600000000000))"
    by simp
  show ?thesis
    using cfg success
      T [of "sample_env (Inl (External ''timeout'')) (Inl (External ''unused''))" sample_world]
      T [of "sample_env (sample_token [] 3600) (Inl (External ''unused''))" sample_world]
      T [of "sample_env (sample_token ''tok'' 0) (Inl (External ''unused''))" sample_world]
    by (simp add: sample_env_def sample_token_def prod_eq_iff)
qed

text \<open>
  C5 as stated fails where the duration wraps: with \<open>expires_in = 2^55\<close> the product
  \<open>expires_in * 10^9\<close> is \<open>0\<close> modulo \<open>2^64\<close>, so the stored expiry is the current time
  itself and not the current time plus \<open>2^55\<close> seconds.
\<close>
theorem TryAuthenticate_expiry_wraps:
  "fst (TryAuthenticate (sample_env (sample_token ''tok'' 36028797018963968) (Inl (External ''unused'')))
          (sample_cred [] 0) sample_world)
     = (None, sample_cred ''tok'' sample_now) \<and>
   sint (36028797018963968 :: go_int) = 36028797018963968 \<and>
   clock sample_world (reads sample_world) = sample_now \<and>
   sample_now \<noteq> sample_now + sint (36028797018963968 :: go_int) * 1000000000"
  by (simp add: TryAuthenticate_def http_NewRequest_def SetBasicAuth_def Header_Set_def
        decodeJsonFromRequest_def time_Now_def time_Add_def time_Second_def
        sample_env_def sample_token_def sample_cred_def sample_world_def sample_now_def)

lemma selectHost_credential:
  assumes "selectHost e (Some cred) w = (r, oauth1, w1)"
  shows "oauth1 = Some cred \<or>
         (\<exists>err cred' wa. oauth1 = Some cred' \<and> clock wa = clock w \<and>
            TryAuthenticate e cred wa = ((err, cred'), w1))"
  using assms
  by (auto simp: selectHost_def ShouldReauthenticate_def time_Now_def Let_def
        split: if_splits prod.splits option.splits)

lemma FetchSubredditPosts_credential:
  "fst (snd (FetchSubredditPosts e subreddit sort' topPeriod search ctmpl rtmpl flairs oauth w))
     = fst (snd (selectHost e oauth w))"
  by (auto simp: FetchSubredditPosts_def prepareRequest_def decodeJsonFromRequest_def Let_def
        split: prod.splits sum.splits)

lemma credential_ok_step:
  assumes inv: "credential_ok oauth"
    and clk: "2 ^ 63 < clock w (reads w)"
    and run: "TryAuthenticate e oauth w = ((err, oauth'), w')"
  shows "credential_ok oauth'"
  using TryAuthenticate_credential [OF run] inv time_Add_nonzero [OF clk]
  by (auto simp: credential_ok_def)

text \<open>
  C9, as amended. Let the clock read more than \<open>2^63\<close> nanoseconds after the zero instant
  (any date after the year 293). From a credential in which a non-empty token comes
  with a non-zero expiry, the authenticator yields a credential of the same kind: either
  both derived fields are unchanged, or the token is the non-empty response token and the
  expiry is the current time plus the duration of a non-zero \<open>expires_in\<close> (positive or
  negative), which is not the zero instant. A fetch changes the credential through the
  authenticator only, and so hands back a credential of the same kind.
\<close>
theorem credential_ok_preserved:
  assumes inv: "credential_ok oauth"
    and clk: "clock_sane w"
    and run: "TryAuthenticate e oauth w = ((err, oauth'), w')"
  shows "credential_ok oauth' \<and>
         ((AccessToken oauth' = AccessToken oauth \<and> ExpiresAt oauth' = ExpiresAt oauth) \<or>
          (\<exists>resp. decode_token e (tokenRequest e oauth) = Inr resp \<and>
             resp_ExpiresIn resp \<noteq> 0 \<and>
             AccessToken oauth' = resp_AccessToken resp \<and> AccessToken oauth' \<noteq> [] \<and>
             ExpiresAt oauth' = time_Add (clock w (reads w)) (resp_ExpiresIn resp * time_Second) \<and>
             ExpiresAt oauth' \<noteq> 0)) \<and>
         (\<exists>c. fst (snd (FetchSubredditPosts e subreddit sort' topPeriod search ctmpl rtmpl flairs
                          (Some oauth) w)) = Some c \<and> credential_ok c)"
proof -
  have now: "2 ^ 63 < clock w (reads w)"
    using clk by (simp add: clock_sane_def)
  have ok: "credential_ok oauth'"
    by (rule credential_ok_step [OF inv now run])
  have shape: "(AccessToken oauth' = AccessToken oauth \<and> ExpiresAt oauth' = ExpiresAt oauth) \<or>
          (\<exists>resp. decode_token e (tokenRequest e oauth) = Inr resp \<and>
             resp_ExpiresIn resp \<noteq> 0 \<and>
             AccessToken oauth' = resp_AccessToken resp \<and> AccessToken oauth' \<noteq> [] \<and>
             ExpiresAt oauth' = time_Add (clock w (reads w)) (resp_ExpiresIn resp * time_Second) \<and>
             ExpiresAt oauth' \<noteq> 0)"
    using TryAuthenticate_credential [OF run] time_Add_nonzero [OF now] by auto
  obtain r oauth1 w1 where sel: "selectHost e (Some oauth) w = (r, oauth1, w1)"
    by (cases "selectHost e (Some oauth) w") auto
  have "\<exists>c. oauth1 = Some c \<and> credential_ok c"
    using selectHost_credential [OF sel]
  proof
    assume "oauth1 = Some oauth"
    then show ?thesis using inv by simp
  next
    assume "\<exists>err cred' wa. oauth1 = Some cred' \<and> clock wa = clock w \<and>
              TryAuthenticate e oauth wa = ((err, cred'), w1)"
    then obtain err2 cred' wa where c: "oauth1 = Some cred'" and k: "clock wa = clock w"
      and r2: "TryAuthenticate e oauth wa = ((err2, cred'), w1)" by blast
    have "2 ^ 63 < clock wa (reads wa)"
      using clk k by (simp add: clock_sane_def)
    from credential_ok_step [OF inv this r2] c show ?thesis by simp
  qed
  then have "\<exists>c. fst (snd (FetchSubredditPosts e subreddit sort' topPeriod search ctmpl rtmpl
                flairs (Some oauth) w)) = Some c \<and> credential_ok c"
    by (simp add: FetchSubredditPosts_credential sel)
  with ok shape show ?thesis by blast
qed

theorem credential_ok_preserved_witness:
  "credential_ok (sample_cred [] 0) \<and> clock_sane sample_world \<and>
   credential_ok (snd (fst (TryAuthenticate
      (sample_env (sample_token ''tok'' 3600) (Inl (External ''unused'')))
      (sample_cred [] 0) sample_world)))"
proof -
  have inv: "credential_ok (sample_cred [] 0)"
    by (simp add: credential_ok_def sample_cred_def)
  have clk: "clock_sane sample_world"
    by (simp add: clock_sane_def sample_world_def sample_now_def)
  show ?thesis
    using inv clk credential_ok_preserved [OF inv clk run_eq] by simp
qed

text \<open>
  C9 as stated fails on the sign: a response with \<open>expires_in = -1\<close> passes the only test
  the source makes (\<open>expires_in = 0\<close>), and the token is stored with an expiry one second
  before the current time.
\<close>
theorem negative_expires_in_accepted:
  "credential_ok (sample_cred [] 0) \<and>
   fst (TryAuthenticate (sample_env (sample_token ''tok'' (- 1)) (Inl (External ''unused'')))
          (sample_cred [] 0) sample_world)
     = (None, sample_cred ''tok'' (sample_now - 1000000000)) \<and>
   AccessToken (sample_cred ''tok'' (sample_now - 1000000000)) \<noteq> AccessToken (sample_cred [] 0) \<and>
   clock sample_world (reads sample_world) = sample_now \<and>
   sint (- 1 :: go_int) = - 1"
  by (simp add: credential_ok_def TryAuthenticate_def http_NewRequest_def SetBasicAuth_def Header_Set_def
        decodeJsonFromRequest_def time_Now_def time_Add_def time_Second_def
        sample_env_def sample_token_def sample_cred_def sample_world_def sample_now_def)

text \<open>
  C10. When one of client id, client secret, username and password is empty, the
  authenticator returns no error, the credential is returned as it was, and the world is
  unchanged: no request has been sent and the clock has not been read.
\<close>
theorem TryAuthenticate_unconfigured:
  assumes "ClientId oauth = [] \<or> ClientSecret oauth = [] \<or> Username oauth = [] \<or> Password oauth = []"
  shows "TryAuthenticate e oauth w = ((None, oauth), w)"
  using assms by (auto simp: TryAuthenticate_def)

theorem TryAuthenticate_unconfigured_witness:
  "Password ((sample_cred ''old'' 5)\<lparr>Password := []\<rparr>) = [] \<and>
   TryAuthenticate (sample_env (sample_token ''tok'' 3600) (Inl (External ''unused'')))
     ((sample_cred ''old'' 5)\<lparr>Password := []\<rparr>) sample_world
   = ((None, (sample_cred ''old'' 5)\<lparr>Password := []\<rparr>), sample_world) \<and>
   sent sample_world = []"
  using TryAuthenticate_unconfigured
     [of "(sample_cred ''old'' 5)\<lparr>Password := []\<rparr>"
         "sample_env (sample_token ''tok'' 3600) (Inl (External ''unused''))" sample_world]
  by (simp add: sample_cred_def sample_world_def)

subsection \<open>Request construction\<close>

lemma ReplaceAll_no_first:
  "a \<notin> set s \<Longrightarrow> strings_ReplaceAll s (a # old) new = s"
  by (induction s) auto

lemma ReplaceAll_segment:
  "a \<notin> set seg \<Longrightarrow>
   strings_ReplaceAll (seg @ (a # old) @ rest) (a # old) new
     = seg @ new @ strings_ReplaceAll rest (a # old) new"
  by (induction seg) auto

lemma join_Cons: "ys \<noteq> [] \<Longrightarrow> join sep (x # ys) = x @ sep @ join sep ys"
  by (cases ys) simp_all

lemma ReplaceAll_join:
  assumes "segs \<noteq> []" and "\<forall>seg \<in> set segs. a \<notin> set seg"
  shows "strings_ReplaceAll (join (a # old) segs) (a # old) new = join new segs"
  using assms
proof (induction segs)
  case Nil
  then show ?case by simp
next
  case (Cons x xs)
  show ?case
  proof (cases "xs = []")
    case True
    then show ?thesis using Cons.prems by (simp add: ReplaceAll_no_first)
  next
    case False
    have x: "a \<notin> set x" using Cons.prems by simp
    have "strings_ReplaceAll (join (a # old) xs) (a # old) new = join new xs"
      using Cons.IH False Cons.prems by simp
    then show ?thesis
      using False ReplaceAll_segment [OF x, of old "join (a # old) xs" new]
      by (simp add: join_Cons)
  qed
qed

lemma Encode_cases:
  "Values_Encode (buildQuery subreddit sort' topPeriod search) =
     (if search \<noteq> [] then
        ''q='' @ QueryEscape (search @ '' subreddit:'' @ subreddit) @ ''&sort='' @ QueryEscape sort'
          @ (if sort' = ''top'' then ''&t='' @ QueryEscape topPeriod else [])
      else (if sort' = ''top'' then ''t='' @ QueryEscape topPeriod else []))"
  by (simp add: Values_Encode_def buildQuery_def Values_Set_def Values_Get_def Let_def
        less_char_def less_eq_char_def QueryEscape_def escape_byte_def shouldEscape_def)

lemma selectHost_base:
  assumes "selectHost e oauth w = (Inr base, oauth1, w1)"
  shows "base = (if useOauth oauth then ''https://oauth.reddit.com'' else ''https://reddit.com'')"
  using assms
  by (auto simp: selectHost_def useOauth_def Let_def
        split: option.splits if_splits prod.splits)

lemma setHeaders_url: "req_url (setHeaders e use oauth request) = req_url request"
  and setHeaders_method: "req_method (setHeaders e use oauth request) = req_method request"
  by (simp_all add: setHeaders_def addBrowserUserAgentHeader_def Header_Set_def Let_def
        split: option.splits)

lemma prepareRequest_url:
  assumes "prepareRequest e subreddit sort' topPeriod search rtmpl oauth w
             = (Inr request, oauth1, w1)"
  shows "req_method request = ''GET'' \<and>
         req_url request =
           finalRequestUrl (if useOauth oauth then ''https://oauth.reddit.com''
                            else ''https://reddit.com'')
             subreddit sort' topPeriod search rtmpl"
proof -
  obtain r o1 wa where sel: "selectHost e oauth w = (r, o1, wa)"
    by (cases "selectHost e oauth w") auto
  show ?thesis
  proof (cases r)
    case (Inl err)
    then show ?thesis using assms sel by (simp add: prepareRequest_def)
  next
    case (Inr base)
    have b: "base = (if useOauth oauth then ''https://oauth.reddit.com'' else ''https://reddit.com'')"
      using selectHost_base sel Inr by blast
    show ?thesis
      using assms sel Inr b
      by (auto simp: prepareRequest_def http_NewRequest_def setHeaders_url setHeaders_method
            Let_def split: option.splits)
  qed
qed

lemma sample_prepare:
  "prepareRequest (sample_env tok lst) ''golang'' ''hot'' ''day'' [] [] None sample_world
     = (Inr sample_request, None, sample_world)"
  by (simp add: prepareRequest_def selectHost_def finalRequestUrl_def applyRequestUrlTemplate_def
        buildRequestUrl_def buildQuery_def Values_Encode_def http_NewRequest_def setHeaders_def
        addBrowserUserAgentHeader_def Header_Set_def useOauth_def sample_env_def
        sample_request_def Let_def)

text \<open>
  C7. The query holds \<open>q = <search> subreddit:<subreddit>\<close> and \<open>sort = <sort>\<close> exactly
  when a search term is given, and \<open>t = <topPeriod>\<close> exactly when the sort is \<open>top\<close>,
  with or without a search. The constructed URL is the search listing with the encoded
  query when a search term is given and \<open>/r/<subreddit>/<sort>.json?\<close> with the encoded
  query otherwise. When a request-URL template is configured the final URL is the
  template with \<open>{REQUEST-URL}\<close> replaced by the constructed URL, and in a template whose
  pieces around the placeholder hold no brace every occurrence is replaced. The listing
  request that a fetch prepares is a GET of this final URL on the host that was selected.
\<close>
theorem request_url:
  "Values_Get (buildQuery subreddit sort' topPeriod search) ''q''
     = (if search \<noteq> [] then [search @ '' subreddit:'' @ subreddit] else []) \<and>
   Values_Get (buildQuery subreddit sort' topPeriod search) ''sort''
     = (if search \<noteq> [] then [sort'] else []) \<and>
   Values_Get (buildQuery subreddit sort' topPeriod search) ''t''
     = (if sort' = ''top'' then [topPeriod] else []) \<and>
   finalRequestUrl base subreddit sort' topPeriod search rtmpl
     = (let requestUrl =
              (if search \<noteq> [] then
                 base @ ''/search.json?'' @ ''q=''
                   @ QueryEscape (search @ '' subreddit:'' @ subreddit)
                   @ ''&sort='' @ QueryEscape sort'
                   @ (if sort' = ''top'' then ''&t='' @ QueryEscape topPeriod else [])
               else
                 base @ ''/r/'' @ subreddit @ ''/'' @ sort' @ ''.json?''
                   @ (if sort' = ''top'' then ''t='' @ QueryEscape topPeriod else []))
        in if rtmpl \<noteq> [] then strings_ReplaceAll rtmpl ''{REQUEST-URL}'' requestUrl
           else requestUrl) \<and>
   (segs \<noteq> [] \<and> (\<forall>seg \<in> set segs. CHR ''{'' \<notin> set seg) \<and> join ''{REQUEST-URL}'' segs \<noteq> []
      \<longrightarrow> applyRequestUrlTemplate (join ''{REQUEST-URL}'' segs) url = join url segs) \<and>
   (prepareRequest e subreddit sort' topPeriod search rtmpl oauth w = (Inr request, oauth1, w1)
      \<longrightarrow> req_method request = ''GET'' \<and>
          req_url request =
            finalRequestUrl (if useOauth oauth then ''https://oauth.reddit.com''
                             else ''https://reddit.com'')
              subreddit sort' topPeriod search rtmpl)"
proof -
  have q: "Values_Get (buildQuery subreddit sort' topPeriod search) ''q''
     = (if search \<noteq> [] then [search @ '' subreddit:'' @ subreddit] else [])"
    by (simp add: buildQuery_def Values_Set_def Values_Get_def Let_def)
  have s: "Values_Get (buildQuery subreddit sort' topPeriod search) ''sort''
     = (if search \<noteq> [] then [sort'] else [])"
    by (simp add: buildQuery_def Values_Set_def Values_Get_def Let_def)
  have t: "Values_Get (buildQuery subreddit sort' topPeriod search) ''t''
     = (if sort' = ''top'' then [topPeriod] else [])"
    by (simp add: buildQuery_def Values_Set_def Values_Get_def Let_def)
  have u: "finalRequestUrl base subreddit sort' topPeriod search rtmpl
     = (let requestUrl =
              (if search \<noteq> [] then
                 base @ ''/search.json?'' @ ''q=''
                   @ QueryEscape (search @ '' subreddit:'' @ subreddit)
                   @ ''&sort='' @ QueryEscape sort'
                   @ (if sort' = ''top'' then ''&t='' @ QueryEscape topPeriod else [])
               else
                 base @ ''/r/'' @ subreddit @ ''/'' @ sort' @ ''.json?''
                   @ (if sort' = ''top'' then ''t='' @ QueryEscape topPeriod else []))
        in if rtmpl \<noteq> [] then strings_ReplaceAll rtmpl ''{REQUEST-URL}'' requestUrl
           else requestUrl)"
    by (simp add: finalRequestUrl_def applyRequestUrlTemplate_def buildRequestUrl_def
          Encode_cases Let_def)
  have j: "segs \<noteq> [] \<and> (\<forall>seg \<in> set segs. CHR ''{'' \<notin> set seg) \<and> join ''{REQUEST-URL}'' segs \<noteq> []
      \<longrightarrow> applyRequestUrlTemplate (join ''{REQUEST-URL}'' segs) url = join url segs"
    using ReplaceAll_join [of segs "CHR ''{''" "''REQUEST-URL}''" url]
    by (simp add: applyRequestUrlTemplate_def)
  have p: "prepareRequest e subreddit sort' topPeriod search rtmpl oauth w = (Inr request, oauth1, w1)
      \<longrightarrow> req_method request = ''GET'' \<and>
          req_url request =
            finalRequestUrl (if useOauth oauth then ''https://oauth.reddit.com''
                             else ''https://reddit.com'')
              subreddit sort' topPeriod search rtmpl"
    using prepareRequest_url by blast
  from q s t u j p show ?thesis by (intro conjI)
qed

theorem request_url_witness:
  "finalRequestUrl ''https://reddit.com'' ''programming'' ''top'' ''week'' ''rust''
      ''https://proxy.example/?u={REQUEST-URL}''
     = ''https://proxy.example/?u=https://reddit.com/search.json?q=rust+subreddit%3Aprogramming&sort=top&t=week'' \<and>
   Values_Get (buildQuery ''programming'' ''top'' ''week'' ''rust'') ''q''
     = [''rust subreddit:programming''] \<and>
   Values_Get (buildQuery ''programming'' ''top'' ''week'' ''rust'') ''sort'' = [''top''] \<and>
   Values_Get (buildQuery ''programming'' ''top'' ''week'' ''rust'') ''t'' = [''week''] \<and>
   finalRequestUrl ''https://reddit.com'' ''programming'' ''hot'' ''week'' [] []
     = ''https://reddit.com/r/programming/hot.json?'' \<and>
   applyRequestUrlTemplate (join ''{REQUEST-URL}'' [''a?u='', ''&v='', ''#z'']) ''URL''
     = ''a?u=URL&v=URL#z'' \<and>
   req_url sample_request
     = finalRequestUrl ''https://reddit.com'' ''golang'' ''hot'' ''day'' [] []"
  using request_url [of "''programming''" "''top''" "''week''" "''rust''" "''https://reddit.com''"
          "''https://proxy.example/?u={REQUEST-URL}''" "[''a?u='', ''&v='', ''#z'']" "''URL''"]
    request_url [of "''programming''" "''hot''" "''week''" "[]" "''https://reddit.com''" "[]"]
    request_url [of "''golang''" "''hot''" "''day''" "[]" "''https://reddit.com''" "[]"
          "[[]]" "[]" "sample_env (Inl (External ''unused'')) (Inr sample_listing)" None
          sample_world sample_request None sample_world]
    sample_prepare [of "Inl (External ''unused'')" "Inr sample_listing"]
  by (simp add: Let_def QueryEscape_def escape_byte_def shouldEscape_def upperhex_def
        useOauth_def)

subsection \<open>Normalization\<close>

lemma normalizeLoop_append:
  "normalizeLoop e subreddit ctmpl flairs xs posts =
     posts @ map (normalizePost e subreddit ctmpl flairs) (filter kept xs)"
  by (induction xs arbitrary: posts) (simp_all add: kept_def)

text \<open>
  C4. The loop over a decoded listing produces the posts of exactly the entries that are
  neither stickied nor pinned, in the order of the listing; nothing is produced for a
  stickied or pinned entry. When the listing request is reached and decodes to a listing
  with at least one entry, this sequence is what the fetch returns.
\<close>
theorem FetchSubredditPosts_posts:
  assumes prep: "prepareRequest e subreddit sort' topPeriod search rtmpl oauth w
                   = (Inr request, oauth1, w1)"
    and dec: "decode_listing e request = Inr listing"
    and ne: "Children listing \<noteq> []"
  shows "normalizeLoop e subreddit ctmpl flairs (Children listing) []
           = map (normalizePost e subreddit ctmpl flairs) (filter kept (Children listing)) \<and>
         fst (FetchSubredditPosts e subreddit sort' topPeriod search ctmpl rtmpl flairs oauth w)
           = Inr (map (normalizePost e subreddit ctmpl flairs) (filter kept (Children listing)))"
  using prep dec ne
  by (simp add: FetchSubredditPosts_def decodeJsonFromRequest_def normalizeLoop_append)

theorem FetchSubredditPosts_posts_witness:
  "fst (FetchSubredditPosts (sample_env (Inl (External ''unused'')) (Inr sample_listing))
          ''golang'' ''hot'' ''day'' [] [] [] False None sample_world)
     = Inr [normalizePost (sample_env (Inl (External ''unused'')) (Inr sample_listing))
              ''golang'' [] False sample_post,
            normalizePost (sample_env (Inl (External ''unused'')) (Inr sample_listing))
              ''golang'' [] False (sample_post\<lparr>post_Id := ''def''\<rparr>)]"
proof -
  have dec: "decode_listing (sample_env (Inl (External ''unused'')) (Inr sample_listing))
               sample_request = Inr sample_listing"
    by (simp add: sample_env_def)
  have ne: "Children sample_listing \<noteq> []"
    by (simp add: sample_listing_def)
  show ?thesis
    using FetchSubredditPosts_posts [OF sample_prepare dec ne, of "[]" False]
    by (simp add: sample_listing_def sample_post_def kept_def)
qed

lemma FetchSubredditPosts_Inr:
  assumes "fst (FetchSubredditPosts e subreddit sort' topPeriod search ctmpl rtmpl flairs oauth w) = Inr posts"
  shows "\<exists>request oauth1 w1 listing.
           prepareRequest e subreddit sort' topPeriod search rtmpl oauth w = (Inr request, oauth1, w1) \<and>
           decode_listing e request = Inr listing \<and> Children listing \<noteq> [] \<and>
           posts = map (normalizePost e subreddit ctmpl flairs) (filter kept (Children listing))"
  using assms
  by (auto simp: FetchSubredditPosts_def decodeJsonFromRequest_def normalizeLoop_append
        split: prod.splits sum.splits if_splits)

text \<open>
  C6. When the listing request is reached and decodes to a listing with no entry, the
  fetch fails with the error ``no posts found'', which is not an error of a collaborator,
  and returns no posts.
\<close>
theorem FetchSubredditPosts_empty:
  assumes prep: "prepareRequest e subreddit sort' topPeriod search rtmpl oauth w
                   = (Inr request, oauth1, w1)"
    and dec: "decode_listing e request = Inr listing"
    and emp: "Children listing = []"
  shows "FetchSubredditPosts e subreddit sort' topPeriod search ctmpl rtmpl flairs oauth w
           = (Inl (ErrorsNew ''no posts found''), oauth1, w1\<lparr>sent := sent w1 @ [request]\<rparr>) \<and>
         ErrorsNew ''no posts found'' \<noteq> External msg"
  using prep dec emp
  by (simp add: FetchSubredditPosts_def decodeJsonFromRequest_def)

theorem FetchSubredditPosts_empty_witness:
  "FetchSubredditPosts (sample_env (Inl (External ''unused'')) (Inr \<lparr>Children = []\<rparr>))
          ''golang'' ''hot'' ''day'' [] [] [] False None sample_world
     = (Inl (ErrorsNew ''no posts found''), None, sample_world\<lparr>sent := [sample_request]\<rparr>)"
proof -
  have dec: "decode_listing (sample_env (Inl (External ''unused'')) (Inr \<lparr>Children = []\<rparr>))
               sample_request = Inr \<lparr>Children = []\<rparr>"
    by (simp add: sample_env_def)
  have emp: "Children \<lparr>Children = []\<rparr> = []"
    by simp
  show ?thesis
    using FetchSubredditPosts_empty [OF sample_prepare dec emp, of "[]" False]
    by (simp add: sample_world_def)
qed

text \<open>
  C1. For an entry with at least one crosspost-parent record, the post is marked as a
  crosspost, its domain label is \<open>r/\<close> followed by the first parent's subreddit, and its
  target URL is the first parent's URL: the comments-URL template filled with the parent's
  subreddit, id and permalink when a template is configured, and
  \<open>https://www.reddit.com\<close> followed by the parent's permalink otherwise. Changing the
  entry's own id, URL, permalink or self flag, or the parent records after the first,
  does not change the target URL.
\<close>
theorem crosspost_override:
  assumes "post_ParentList post = parent # others"
  shows "IsCrosspost (normalizePost e subreddit ctmpl flairs post) \<and>
         TargetUrlDomain (normalizePost e subreddit ctmpl flairs post)
           = ''r/'' @ parent_Subreddit parent \<and>
         TargetUrl (normalizePost e subreddit ctmpl flairs post) = parentUrl ctmpl parent \<and>
         TargetUrl (normalizePost e subreddit ctmpl flairs
                      (post\<lparr>post_Id := id', post_Url := url', post_Permalink := permalink',
                            post_IsSelf := self', post_ParentList := parent # others'\<rparr>))
           = TargetUrl (normalizePost e subreddit ctmpl flairs post)"
  using assms by (simp add: normalizePost_def parentUrl_def Let_def)

theorem crosspost_override_witness:
  "IsCrosspost (normalizePost (sample_env (Inl (External ''unused'')) (Inr sample_listing))
      ''golang'' [] False (sample_post\<lparr>post_ParentList := [sample_parent, sample_parent\<lparr>parent_Id := ''other''\<rparr>]\<rparr>)) \<and>
   TargetUrlDomain (normalizePost (sample_env (Inl (External ''unused'')) (Inr sample_listing))
      ''golang'' [] False (sample_post\<lparr>post_ParentList := [sample_parent, sample_parent\<lparr>parent_Id := ''other''\<rparr>]\<rparr>))
     = ''r/rust'' \<and>
   TargetUrl (normalizePost (sample_env (Inl (External ''unused'')) (Inr sample_listing))
      ''golang'' [] False (sample_post\<lparr>post_ParentList := [sample_parent, sample_parent\<lparr>parent_Id := ''other''\<rparr>]\<rparr>))
     = ''https://www.reddit.com/r/rust/comments/xyz/original/'' \<and>
   TargetUrl (normalizePost (sample_env (Inl (External ''unused'')) (Inr sample_listing))
      ''golang'' ''https://r.example/{SUBREDDIT}/{POST-ID}?p={POST-PATH}'' False
      (sample_post\<lparr>post_ParentList := [sample_parent]\<rparr>))
     = ''https://r.example/rust/xyz?p=r/rust/comments/xyz/original/''"
  using crosspost_override [of "sample_post\<lparr>post_ParentList := [sample_parent, sample_parent\<lparr>parent_Id := ''other''\<rparr>]\<rparr>"
          sample_parent "[sample_parent\<lparr>parent_Id := ''other''\<rparr>]"
          "sample_env (Inl (External ''unused'')) (Inr sample_listing)" "''golang''" "[]" False]
    crosspost_override [of "sample_post\<lparr>post_ParentList := [sample_parent]\<rparr>"
          sample_parent "[]"
          "sample_env (Inl (External ''unused'')) (Inr sample_listing)" "''golang''"
          "''https://r.example/{SUBREDDIT}/{POST-ID}?p={POST-PATH}''" False]
  by (simp add: parentUrl_def sample_parent_def templateRedditCommentsURL_def
        strings_TrimLeft_def Let_def)

text \<open>
  C2, as amended. Without crosspost-parent records the target URL is the entry's link URL
  when \<open>is_self\<close> is false and is unset (the empty string) when \<open>is_self\<close> is true; with
  parent records it is the first parent's URL. So, for an entry whose link URL is
  non-empty unless it is a self post and whose parent URL is non-empty when it is a
  crosspost, the target URL is unset exactly when \<open>is_self\<close> is true and there is no
  parent record.
\<close>
theorem target_url:
  "TargetUrl (normalizePost e subreddit ctmpl flairs post)
     = (case post_ParentList post of
          [] \<Rightarrow> (if post_IsSelf post then [] else post_Url post)
        | parent # others \<Rightarrow> parentUrl ctmpl parent) \<and>
   ((\<not> post_IsSelf post \<longrightarrow> post_Url post \<noteq> []) \<and>
    (\<forall>parent others. post_ParentList post = parent # others \<longrightarrow> parentUrl ctmpl parent \<noteq> [])
    \<longrightarrow> (TargetUrl (normalizePost e subreddit ctmpl flairs post) = [] \<longleftrightarrow>
           post_IsSelf post \<and> post_ParentList post = []))"
  by (auto simp: normalizePost_def parentUrl_def Let_def split: list.splits)

theorem target_url_witness:
  "TargetUrl (normalizePost (sample_env (Inl (External ''unused'')) (Inr sample_listing))
      ''golang'' [] False sample_post) = ''http://x'' \<and>
   TargetUrl (normalizePost (sample_env (Inl (External ''unused'')) (Inr sample_listing))
      ''golang'' [] False (sample_post\<lparr>post_IsSelf := True\<rparr>)) = [] \<and>
   TargetUrl (normalizePost (sample_env (Inl (External ''unused'')) (Inr sample_listing))
      ''golang'' [] False (sample_post\<lparr>post_IsSelf := True, post_ParentList := [sample_parent]\<rparr>))
     = ''https://www.reddit.com/r/rust/comments/xyz/original/''"
  using target_url [of "sample_env (Inl (External ''unused'')) (Inr sample_listing)"
          "''golang''" "[]" False sample_post]
    target_url [of "sample_env (Inl (External ''unused'')) (Inr sample_listing)"
          "''golang''" "[]" False "sample_post\<lparr>post_IsSelf := True\<rparr>"]
    target_url [of "sample_env (Inl (External ''unused'')) (Inr sample_listing)"
          "''golang''" "[]" False "sample_post\<lparr>post_IsSelf := True, post_ParentList := [sample_parent]\<rparr>"]
  by (simp add: sample_post_def sample_parent_def parentUrl_def)

text \<open>
  C2 as stated fails for a link post whose URL is empty: \<open>is_self\<close> is false and there is
  no parent record, yet the target URL is the empty string, which is the unset value.
\<close>
theorem link_post_without_url:
  "TargetUrl (normalizePost (sample_env (Inl (External ''unused'')) (Inr sample_listing))
      ''golang'' [] False (sample_post\<lparr>post_Url := []\<rparr>)) = [] \<and>
   \<not> post_IsSelf (sample_post\<lparr>post_Url := []\<rparr>) \<and>
   post_ParentList (sample_post\<lparr>post_Url := []\<rparr>) = []"
  by (simp add: normalizePost_def sample_post_def Let_def)

text \<open>
  C3. The thumbnail URL is the unescaped raw thumbnail when the raw thumbnail is non-empty
  and is none of \<open>self\<close>, \<open>default\<close> and \<open>nsfw\<close>, and is left unset otherwise. As
  \<^verbatim>\<open>html.UnescapeString\<close> maps a non-empty string to a non-empty string, the thumbnail URL
  is set exactly in the first case.
\<close>
theorem thumbnail_set:
  "ThumbnailUrl (normalizePost e subreddit ctmpl flairs post)
     = (if post_Thumbnail post \<noteq> [] \<and> post_Thumbnail post \<notin> {''self'', ''default'', ''nsfw''}
        then html_UnescapeString e (post_Thumbnail post) else []) \<and>
   ((\<forall>s. s \<noteq> [] \<longrightarrow> html_UnescapeString e s \<noteq> []) \<longrightarrow>
      (ThumbnailUrl (normalizePost e subreddit ctmpl flairs post) \<noteq> [] \<longleftrightarrow>
         post_Thumbnail post \<noteq> [] \<and> post_Thumbnail post \<notin> {''self'', ''default'', ''nsfw''}))"
  by (auto simp: normalizePost_def Let_def split: list.splits)

theorem thumbnail_set_witness:
  "ThumbnailUrl (normalizePost (sample_env (Inl (External ''unused'')) (Inr sample_listing))
      ''golang'' [] False (sample_post\<lparr>post_Thumbnail := ''https://t.example/1.jpg''\<rparr>))
     = ''https://t.example/1.jpg'' \<and>
   ThumbnailUrl (normalizePost (sample_env (Inl (External ''unused'')) (Inr sample_listing))
      ''golang'' [] False sample_post) = [] \<and>
   ThumbnailUrl (normalizePost (sample_env (Inl (External ''unused'')) (Inr sample_listing))
      ''golang'' [] False (sample_post\<lparr>post_Thumbnail := []\<rparr>)) = []"
proof -
  have unescape: "\<forall>s. s \<noteq> [] \<longrightarrow>
      html_UnescapeString (sample_env (Inl (External ''unused'')) (Inr sample_listing)) s \<noteq> []"
    by (simp add: sample_env_def)
  show ?thesis
    using unescape
      thumbnail_set [of "sample_env (Inl (External ''unused'')) (Inr sample_listing)"
          "''golang''" "[]" False "sample_post\<lparr>post_Thumbnail := ''https://t.example/1.jpg''\<rparr>"]
      thumbnail_set [of "sample_env (Inl (External ''unused'')) (Inr sample_listing)"
          "''golang''" "[]" False sample_post]
      thumbnail_set [of "sample_env (Inl (External ''unused'')) (Inr sample_listing)"
          "''golang''" "[]" False "sample_post\<lparr>post_Thumbnail := []\<rparr>"]
    by (simp add: sample_env_def sample_post_def)
qed

end
